theory Spec2Isabelle
  imports Complex_Main
begin

section \<open>Values of the request and of the store\<close>

text \<open>
  A number of the language is a double: not-a-number, one of the two infinities, or a
  finite value. The finite values are taken as rationals, which hold every finite
  double; \<open>Fin q\<close> stands for a number of the language when \<open>q\<close> is the value of a
  double, and both zeros are \<open>Fin 0\<close>.
\<close>

datatype jsnum = NaN | PosInf | NegInf | Fin rat

text \<open>\<open>Number.isFinite\<close>, \<open>isNaN\<close>, the truthiness of a number, and the comparisons
  \<open>a >= b\<close>, \<open>a <= b\<close>, \<open>a > b\<close>; a comparison with not-a-number is false.\<close>

fun isFinite :: "jsnum \<Rightarrow> bool" where
  "isFinite (Fin _) = True"
| "isFinite _ = False"

fun isNaN :: "jsnum \<Rightarrow> bool" where
  "isNaN NaN = True"
| "isNaN _ = False"

fun num_truthy :: "jsnum \<Rightarrow> bool" where
  "num_truthy NaN = False"
| "num_truthy (Fin q) = (q \<noteq> 0)"
| "num_truthy _ = True"

fun num_le :: "jsnum \<Rightarrow> jsnum \<Rightarrow> bool" where
  "num_le NaN _ = False"
| "num_le _ NaN = False"
| "num_le NegInf _ = True"
| "num_le _ PosInf = True"
| "num_le (Fin a) (Fin b) = (a \<le> b)"
| "num_le _ _ = False"

definition num_ge :: "jsnum \<Rightarrow> jsnum \<Rightarrow> bool" where
  "num_ge a b = num_le b a"

definition num_gt :: "jsnum \<Rightarrow> jsnum \<Rightarrow> bool" where
  "num_gt a b = (num_le b a \<and> a \<noteq> b)"

text \<open>
  Arithmetic on doubles is the exact operation followed by rounding to the nearest
  double, ties to the even significand: 53 bits, exponents from -1022 to 1023, a
  magnitude of \<open>2^1024\<close> or more becoming an infinity. \<open>bits n\<close> is the length of \<open>n\<close> in
  binary and \<open>ilog2 q\<close>, for a positive \<open>q\<close>, the \<open>k\<close> with \<open>2^k \<le> q < 2^(k+1)\<close>.
\<close>

function bits :: "int \<Rightarrow> nat" where
  "bits n = (if n \<le> 0 then 0 else Suc (bits (n div 2)))"
  by pat_completeness auto
termination
proof (relation "measure nat")
  show "wf (measure nat)" by simp
next
  fix n :: int
  assume "\<not> n \<le> 0"
  then have "n div 2 < n" by simp
  with \<open>\<not> n \<le> 0\<close> show "(n div 2, n) \<in> measure nat" by simp
qed

declare bits.simps [simp del]

definition pow2 :: "int \<Rightarrow> rat" where
  "pow2 e = (if 0 \<le> e then 2 ^ nat e else 1 / 2 ^ nat (- e))"

definition ilog2 :: "rat \<Rightarrow> int" where
  "ilog2 q = (if 1 \<le> q then int (bits \<lfloor>q\<rfloor>) - 1
              else - int (bits (\<lceil>1 / q\<rceil> - 1)))"

definition round_even :: "rat \<Rightarrow> int" where
  "round_even x =
     (let n = \<lfloor>x\<rfloor>; r = x - of_int n
      in if r < 1 / 2 then n else if 1 / 2 < r then n + 1 else if even n then n else n + 1)"

definition to_double :: "rat \<Rightarrow> jsnum" where
  "to_double q =
     (if q = 0 then Fin 0
      else
        let a = \<bar>q\<bar>;
            u = max (ilog2 a) (- 1022) - 52;
            v = of_int (round_even (a / pow2 u)) * pow2 u
        in if pow2 1024 \<le> v then (if 0 < q then PosInf else NegInf)
           else if 0 < q then Fin v else Fin (- v))"

text \<open>\<open>Number(text)\<close> on the value a numeric text denotes: the nearest double.\<close>

fun to_num :: "jsnum \<Rightarrow> jsnum" where
  "to_num (Fin q) = to_double q"
| "to_num n = n"

text \<open>\<open>a - b\<close> and \<open>a * b\<close>.\<close>

fun num_sub :: "jsnum \<Rightarrow> jsnum \<Rightarrow> jsnum" where
  "num_sub (Fin a) (Fin b) = to_double (a - b)"
| "num_sub NaN _ = NaN"
| "num_sub _ NaN = NaN"
| "num_sub PosInf PosInf = NaN"
| "num_sub NegInf NegInf = NaN"
| "num_sub PosInf _ = PosInf"
| "num_sub NegInf _ = NegInf"
| "num_sub _ PosInf = NegInf"
| "num_sub _ NegInf = PosInf"

fun num_mul :: "jsnum \<Rightarrow> jsnum \<Rightarrow> jsnum" where
  "num_mul (Fin a) (Fin b) = to_double (a * b)"
| "num_mul NaN _ = NaN"
| "num_mul _ NaN = NaN"
| "num_mul PosInf (Fin b) = (if b = 0 then NaN else if 0 < b then PosInf else NegInf)"
| "num_mul NegInf (Fin b) = (if b = 0 then NaN else if 0 < b then NegInf else PosInf)"
| "num_mul (Fin a) PosInf = (if a = 0 then NaN else if 0 < a then PosInf else NegInf)"
| "num_mul (Fin a) NegInf = (if a = 0 then NaN else if 0 < a then NegInf else PosInf)"
| "num_mul PosInf PosInf = PosInf"
| "num_mul NegInf NegInf = PosInf"
| "num_mul PosInf NegInf = NegInf"
| "num_mul NegInf PosInf = NegInf"

text \<open>
  A number the store reads as a 32-bit integer, and one it reads as a 64-bit integer
  that is not negative: the driver sends the decimal text of the number, and the store
  refuses a text with a fraction or an exponent, or out of the range of the type.
\<close>

definition int4 :: "jsnum \<Rightarrow> bool" where
  "int4 n =
     (case n of
        Fin q \<Rightarrow> of_int \<lfloor>q\<rfloor> = q \<and> - (2 ^ 31) \<le> q \<and> q < 2 ^ 31
      | _ \<Rightarrow> False)"

definition nat_int8 :: "jsnum \<Rightarrow> bool" where
  "nat_int8 n =
     (case n of
        Fin q \<Rightarrow> of_int \<lfloor>q\<rfloor> = q \<and> 0 \<le> q \<and> q < 2 ^ 63
      | _ \<Rightarrow> False)"

text \<open>
  A value of the language as a parsed request body holds it. An object is the list of
  its properties, each name occurring once; \<open>JUndef\<close> is what reading an absent
  property gives.
\<close>

datatype jsval =
    JUndef
  | JNull
  | JBool bool
  | JNum jsnum
  | JStr string
  | JArr "jsval list"
  | JObj "(string \<times> jsval) list"

text \<open>
  Reading a property of the request body, as \<open>body.k\<close> and the destructuring of the
  body do. On \<open>null\<close> and \<open>undefined\<close> the read throws; on an object it gives the
  property or \<open>undefined\<close>; on any other value it gives \<open>undefined\<close>, none of the
  names the handlers read being a property of a string, number, boolean or array.
\<close>

fun throws_on_read :: "jsval \<Rightarrow> bool" where
  "throws_on_read JUndef = True"
| "throws_on_read JNull = True"
| "throws_on_read _ = False"

fun field :: "jsval \<Rightarrow> string \<Rightarrow> jsval" where
  "field (JObj kvs) k = (case map_of kvs k of None \<Rightarrow> JUndef | Some v \<Rightarrow> v)"
| "field _ k = JUndef"

text \<open>The truthiness of a value, as the conditions \<open>options ? \<dots>\<close> test it.\<close>

fun truthy :: "jsval \<Rightarrow> bool" where
  "truthy JUndef = False"
| "truthy JNull = False"
| "truthy (JBool b) = b"
| "truthy (JNum n) = num_truthy n"
| "truthy (JStr s) = (s \<noteq> [])"
| "truthy (JArr _) = True"
| "truthy (JObj _) = True"

text \<open>\<open>v ?? null\<close>.\<close>

definition or_null :: "jsval \<Rightarrow> jsval" where
  "or_null v = (if v = JUndef \<or> v = JNull then JNull else v)"

text \<open>
  \<open>String.prototype.trim\<close> on strings of code units below 256: it removes, at both
  ends, tab, line feed, vertical tab, form feed, carriage return, space and the
  no-break space.
\<close>

definition is_space :: "char \<Rightarrow> bool" where
  "is_space c = ((of_char c :: nat) \<in> set [9, 10, 11, 12, 13, 32, 160])"

definition trim :: "string \<Rightarrow> string" where
  "trim s = rev (dropWhile is_space (rev (dropWhile is_space s)))"

section \<open>The handlers of \<open>/api/questions\<close>: helpers\<close>

text \<open>\<open>isNonEmptyString\<close>: a string whose trimmed form has positive length.\<close>

fun isNonEmptyString :: "jsval \<Rightarrow> bool" where
  "isNonEmptyString (JStr s) = (length (trim s) > 0)"
| "isNonEmptyString _ = False"

text \<open>\<open>toDbType\<close> and \<open>toApiType\<close>: the two vocabularies of the question type.\<close>

definition toDbType :: "jsval \<Rightarrow> string" where
  "toDbType t =
     (if t = JStr ''MCQ'' \<or> t = JStr ''multipla_escolha'' then ''multipla_escolha''
      else ''discursiva'')"

definition toApiType :: "jsval \<Rightarrow> string" where
  "toApiType t =
     (if t = JStr ''multipla_escolha'' \<or> t = JStr ''MCQ'' then ''MCQ''
      else ''OPEN'')"

text \<open>
  \<open>v.trim()\<close> on a value. Every call of the handlers is guarded by \<open>isNonEmptyString\<close>,
  so the argument is a string; the second equation is never reached by them.
\<close>

fun js_trim :: "jsval \<Rightarrow> jsval" where
  "js_trim (JStr s) = JStr (trim s)"
| "js_trim _ = JUndef"

section \<open>The store\<close>

text \<open>
  Modelled from the spec: the table \<open>questions\<close>, whose declaration is not among the
  sources. \<open>id\<close> and \<open>correct_index\<close> are 32-bit integer columns; \<open>text\<close>, \<open>difficulty\<close>,
  \<open>type\<close>, \<open>answer\<close> and \<open>hint1\<close> are text columns; \<open>options\<close> holds JSON. \<open>id\<close> and
  \<open>created_at\<close> are assigned by the store on creation and \<open>used_at\<close> is unset then. A
  column holds the value the driver hands back for it: a string for a text column, a
  number for an integer column, \<open>JNull\<close> for NULL. The column \<open>options\<close> is NULL
  (\<open>None\<close>) or holds the value of the JSON text bound to it. The column \<open>hint1\<close> exists
  in the table only when \<open>db_has_hint1\<close> holds; a row reads NULL there until the column
  is written.
\<close>

record question =
  q_id :: int
  q_text :: jsval
  q_difficulty :: jsval
  q_type :: jsval
  q_answer :: jsval
  q_hint1 :: jsval
  q_options :: "jsval option"
  q_correct_index :: jsval
  q_created_at :: nat
  q_used_at :: "nat option"

record db =
  db_rows :: "question list"
  db_has_hint1 :: bool
  db_next_id :: int
  db_now :: nat

text \<open>
  The calls of \<open>pool.query\<close> of one request are numbered from 0 in the order the handler
  makes them; \<open>f k\<close> says that call \<open>k\<close> throws for a reason that is not in the
  request (the store is unreachable, say). A statement that throws, for that or
  because the store refuses a parameter, leaves the store as it was.
\<close>

type_synonym faults = "nat \<Rightarrow> bool"

text \<open>The driver binds \<open>undefined\<close> as NULL.\<close>

definition bind_param :: "jsval \<Rightarrow> jsval" where
  "bind_param v = (if v = JUndef then JNull else v)"

text \<open>\<open>WHERE id = $1\<close> with the number \<open>n\<close> bound.\<close>

definition id_is :: "jsnum \<Rightarrow> question \<Rightarrow> bool" where
  "id_is n r = (n = Fin (of_int (q_id r)))"

text \<open>
  What the driver and the store make of a parameter that is not of its column's type
  is theirs and not the handlers': the text of a number that is not a whole number of at
  most 53 bits, of an array or of an object (\<open>text_of\<close>), the integer the store reads
  in a text that is not a plain decimal (\<open>int_of_text\<close>, \<open>None\<close> when it refuses the
  text), and the form in which the store keeps a JSON object (\<open>object_of\<close>). They are
  taken as inputs.
\<close>

record coercion =
  text_of :: "jsval \<Rightarrow> string"
  int_of_text :: "string \<Rightarrow> int option"
  object_of :: "(string \<times> jsval) list \<Rightarrow> jsval"

text \<open>The decimal text of a whole number that is not negative, and the number a text
  of digits denotes.\<close>

function dec :: "int \<Rightarrow> string" where
  "dec n = (if n < 10 then [char_of (48 + n)]
            else dec (n div 10) @ [char_of (48 + n mod 10)])"
  by pat_completeness auto
termination
proof (relation "measure nat")
  show "wf (measure nat)" by simp
next
  fix n :: int
  assume "\<not> n < 10"
  then have "n div 10 < n" and "0 < n" by simp_all
  then show "(n div 10, n) \<in> measure nat" by simp
qed

declare dec.simps [simp del]

definition is_digit :: "char \<Rightarrow> bool" where
  "is_digit c = (48 \<le> (of_char c :: nat) \<and> (of_char c :: nat) \<le> 57)"

definition digits_value :: "string \<Rightarrow> int" where
  "digits_value s = foldl (\<lambda>a c. 10 * a + ((of_char c :: int) - 48)) 0 s"

text \<open>
  A parameter bound to a text column: \<open>null\<close> and \<open>undefined\<close> are NULL, a string is
  itself, a boolean is \<open>true\<close> or \<open>false\<close>, a whole number of at most 53 bits is its
  decimal text.
\<close>

fun text_param :: "coercion \<Rightarrow> jsval \<Rightarrow> jsval" where
  "text_param co JUndef = JNull"
| "text_param co JNull = JNull"
| "text_param co (JStr s) = JStr s"
| "text_param co (JBool b) = JStr (if b then ''true'' else ''false'')"
| "text_param co (JNum (Fin q)) =
     (if of_int \<lfloor>q\<rfloor> = q \<and> \<bar>q\<bar> \<le> 2 ^ 53
      then JStr ((if q < 0 then ''-'' else []) @ dec \<bar>\<lfloor>q\<rfloor>\<bar>)
      else JStr (text_of co (JNum (Fin q))))"
| "text_param co v = JStr (text_of co v)"

text \<open>
  A parameter bound to a 32-bit integer column, \<open>None\<close> when the store refuses it:
  a number must be a whole number in the range; a text of digits with an optional sign is
  read in decimal; a boolean, an array and an object have texts that are no integer.
\<close>

definition int_of_string :: "coercion \<Rightarrow> string \<Rightarrow> int option" where
  "int_of_string co s =
     (let neg = (case s of c # _ \<Rightarrow> c = CHR ''-'' | [] \<Rightarrow> False);
          ds = (case s of c # t \<Rightarrow> if c = CHR ''-'' \<or> c = CHR ''+'' then t else s | [] \<Rightarrow> [])
      in if ds \<noteq> [] \<and> list_all is_digit ds
         then (let v = (if neg then - digits_value ds else digits_value ds)
               in if - (2 ^ 31) \<le> v \<and> v < 2 ^ 31 then Some v else None)
         else int_of_text co s)"

fun int_param :: "coercion \<Rightarrow> jsval \<Rightarrow> jsval option" where
  "int_param co JUndef = Some JNull"
| "int_param co JNull = Some JNull"
| "int_param co (JNum n) = (if int4 n then Some (JNum n) else None)"
| "int_param co (JStr s) =
     (case int_of_string co s of None \<Rightarrow> None | Some i \<Rightarrow> Some (JNum (Fin (of_int i))))"
| "int_param co _ = None"

text \<open>
  The value of the text \<open>JSON.stringify(v)\<close> as the store keeps it: a number that is
  not finite, and \<open>undefined\<close> inside an array, are \<open>null\<close>.
\<close>

fun json_of :: "coercion \<Rightarrow> jsval \<Rightarrow> jsval" where
  "json_of co (JNum n) = (if isFinite n then JNum n else JNull)"
| "json_of co (JArr xs) = JArr (map (json_of co) xs)"
| "json_of co (JObj kvs) = object_of co kvs"
| "json_of co JUndef = JNull"
| "json_of co v = v"

section \<open>Responses\<close>

text \<open>
  The texts of the responses, named after the source's literals:
  \<open>Texto_obrigatorio\<close> "Texto da pergunta e obrigatorio.",
  \<open>MCQ_precisa_4_alternativas\<close> "MCQ precisa de 4 alternativas preenchidas (A, B, C e D).",
  \<open>Resposta_obrigatoria\<close> "Resposta e obrigatoria para pergunta aberta.",
  \<open>ID_invalido\<close> "ID invalido", \<open>Pergunta_nao_encontrada\<close> "Pergunta nao encontrada",
  \<open>Pergunta_removida\<close> "Pergunta removida com sucesso", and the texts of the four
  \<open>catch\<close> blocks.
\<close>

datatype message =
    Texto_obrigatorio
  | MCQ_precisa_4_alternativas
  | Resposta_obrigatoria
  | ID_invalido
  | Pergunta_nao_encontrada
  | Pergunta_removida
  | Erro_ao_buscar
  | Erro_ao_criar
  | Erro_ao_deletar
  | Erro_ao_atualizar

text \<open>
  The row a statement returns (\<open>RETURNING \<dots>\<close>): \<open>e_hint1\<close> is \<open>None\<close> when the column
  is not in the list, and so is \<open>e_usedAt\<close>.
\<close>

record entity =
  e_id :: int
  e_text :: jsval
  e_difficulty :: jsval
  e_type :: jsval
  e_answer :: jsval
  e_hint1 :: "jsval option"
  e_options :: "jsval option"
  e_correctIndex :: jsval
  e_createdAt :: nat
  e_usedAt :: "nat option option"

text \<open>
  The listing keeps \<open>page\<close>, \<open>limit\<close> and \<open>total\<close>; \<open>totalPages\<close> (a floating-point
  quotient), \<open>count\<close> and \<open>data\<close> (the window the store cuts) are left out.
\<close>

record listing =
  l_page :: jsnum
  l_limit :: jsnum
  l_total :: nat

text \<open>A response: its status and its JSON body, \<open>{error}\<close>, \<open>{message}\<close>, a row or a
  listing.\<close>

datatype response =
    ErrorJson nat message
  | MessageJson nat message
  | EntityJson nat entity
  | ListJson nat listing

fun status :: "response \<Rightarrow> nat" where
  "status (ErrorJson c _) = c"
| "status (MessageJson c _) = c"
| "status (EntityJson c _) = c"
| "status (ListJson c _) = c"

section \<open>\<open>GET /api/questions\<close>\<close>

text \<open>
  \<open>pageRaw\<close> and \<open>limitRaw\<close>: the argument is \<open>None\<close> when the query parameter is
  absent, and otherwise the value its text denotes as a number (not-a-number when it
  denotes none), which \<open>Number\<close> rounds to a double.
\<close>

definition pageRaw :: "jsnum option \<Rightarrow> jsnum" where
  "pageRaw p = (case p of None \<Rightarrow> Fin 1 | Some n \<Rightarrow> to_num n)"

definition limitRaw :: "jsnum option \<Rightarrow> jsnum" where
  "limitRaw l = (case l of None \<Rightarrow> Fin 5 | Some n \<Rightarrow> to_num n)"

definition page_of :: "jsnum option \<Rightarrow> jsnum" where
  "page_of p =
     (if isFinite (pageRaw p) \<and> num_gt (pageRaw p) (Fin 0) then pageRaw p else Fin 1)"

definition limit_of :: "jsnum option \<Rightarrow> jsnum" where
  "limit_of l =
     (if isFinite (limitRaw l) \<and> num_gt (limitRaw l) (Fin 0) \<and> num_le (limitRaw l) (Fin 200)
      then limitRaw l else Fin 5)"

text \<open>\<open>offset = (page - 1) * limit\<close>.\<close>

definition offset_of :: "jsnum \<Rightarrow> jsnum \<Rightarrow> jsnum" where
  "offset_of page limit = num_mul (num_sub page (Fin 1)) limit"

text \<open>
  The page of rows is cut by \<open>LIMIT $n OFFSET $m\<close> with \<open>limit\<close> and \<open>offset\<close> bound:
  the store reads both as 64-bit integers and refuses a negative one.
\<close>

definition window_accepted :: "jsnum \<Rightarrow> jsnum \<Rightarrow> bool" where
  "window_accepted limit offset = (nat_int8 limit \<and> nat_int8 offset)"

text \<open>The count query: all rows, or those of the difficulty asked for when the
  parameter is a non-empty text.\<close>

definition count_rows :: "db \<Rightarrow> string option \<Rightarrow> nat" where
  "count_rows d difficulty =
     (case difficulty of
        None \<Rightarrow> length (db_rows d)
      | Some s \<Rightarrow>
          if s = [] then length (db_rows d)
          else length (filter (\<lambda>r. q_difficulty r = JStr s) (db_rows d)))"

text \<open>
  The handler: the count (call 0), the probe of the column \<open>hint1\<close> (call 1) and the
  page of rows (call 2); an exception of any of them, the refusal of the window among
  them, is the 500 of the \<open>catch\<close>.
\<close>

definition GET :: "faults \<Rightarrow> db \<Rightarrow> jsnum option \<Rightarrow> jsnum option \<Rightarrow> string option \<Rightarrow> response" where
  "GET f d p l difficulty =
     (let page = page_of p; limit = limit_of l; offset = offset_of page limit
      in if f 0 then ErrorJson 500 Erro_ao_buscar
         else let total = count_rows d difficulty
              in if f 1 then ErrorJson 500 Erro_ao_buscar
                 else if f 2 then ErrorJson 500 Erro_ao_buscar
                 else if window_accepted limit offset
                 then ListJson 200 \<lparr>l_page = page, l_limit = limit, l_total = total\<rparr>
                 else ErrorJson 500 Erro_ao_buscar)"

section \<open>\<open>POST /api/questions\<close>\<close>

text \<open>The options as the handler reads them: the entries of \<open>body.options\<close> when it is
  an array, each trimmed when it is a string and \<open>""\<close> otherwise.\<close>

definition rawOptions :: "jsval \<Rightarrow> jsval list" where
  "rawOptions body = (case field body ''options'' of JArr xs \<Rightarrow> xs | _ \<Rightarrow> [])"

definition trimmed :: "jsval \<Rightarrow> string list" where
  "trimmed body = map (\<lambda>x. case x of JStr s \<Rightarrow> trim s | _ \<Rightarrow> []) (rawOptions body)"

text \<open>\<open>ci\<close>: the index supplied when it is a number from 0 to 3, and 0 otherwise.\<close>

definition ci :: "jsval \<Rightarrow> jsnum" where
  "ci body =
     (case field body ''correctIndex'' of
        JNum n \<Rightarrow> if num_ge n (Fin 0) \<and> num_le n (Fin 3) then n else Fin 0
      | _ \<Rightarrow> Fin 0)"

text \<open>\<open>xs[n]\<close> on an array of strings: the element when \<open>n\<close> is an index of the array,
  and \<open>undefined\<close> otherwise.\<close>

fun element_at :: "string list \<Rightarrow> jsnum \<Rightarrow> jsval" where
  "element_at xs (Fin q) =
     (if of_int \<lfloor>q\<rfloor> = q \<and> 0 \<le> q \<and> nat \<lfloor>q\<rfloor> < length xs then JStr (xs ! nat \<lfloor>q\<rfloor>)
      else JUndef)"
| "element_at xs _ = JUndef"

text \<open>
  The rules by type: for a multiple-choice question the four options, the index and
  the answer; for an open question the answer. The result is the message of the 400, or
  \<open>answer\<close>, \<open>options\<close> and \<open>correctIndex\<close> as the insert takes them.
\<close>

definition type_rules :: "string \<Rightarrow> jsval \<Rightarrow> message + (jsval \<times> string list option \<times> jsnum option)" where
  "type_rules dbType body =
     (if dbType = ''multipla_escolha'' then
        if length (trimmed body) \<noteq> 4 \<or> [] \<in> set (trimmed body)
        then Inl MCQ_precisa_4_alternativas
        else Inr (if isNonEmptyString (field body ''answer'')
                  then js_trim (field body ''answer'')
                  else element_at (trimmed body) (ci body),
                  Some (trimmed body), Some (ci body))
      else
        if \<not> isNonEmptyString (field body ''answer'') then Inl Resposta_obrigatoria
        else Inr (js_trim (field body ''answer''), None, None))"

text \<open>The row the insert writes, given whether the column \<open>hint1\<close> was found.\<close>

definition new_row :: "db \<Rightarrow> bool \<Rightarrow> jsval \<Rightarrow> jsval \<Rightarrow> string \<Rightarrow> jsval \<Rightarrow> string list option \<Rightarrow> jsnum option \<Rightarrow> question" where
  "new_row d hasHint1 body difficulty dbType answer options correctIndex =
     \<lparr>q_id = db_next_id d,
      q_text = bind_param (js_trim (field body ''text'')),
      q_difficulty = bind_param difficulty,
      q_type = JStr dbType,
      q_answer = bind_param answer,
      q_hint1 = (if hasHint1
                 then (if isNonEmptyString (field body ''hint1'')
                       then js_trim (field body ''hint1'') else JNull)
                 else JNull),
      q_options = (case options of None \<Rightarrow> None | Some xs \<Rightarrow> Some (JArr (map JStr xs))),
      q_correct_index = (case correctIndex of None \<Rightarrow> JNull | Some n \<Rightarrow> JNum n),
      q_created_at = db_now d,
      q_used_at = None\<rparr>"

text \<open>The row as the insert returns it, its type put back in the vocabulary of the
  client by \<open>toApiType\<close>.\<close>

definition created_entity :: "bool \<Rightarrow> question \<Rightarrow> entity" where
  "created_entity hasHint1 r =
     \<lparr>e_id = q_id r, e_text = q_text r, e_difficulty = q_difficulty r,
      e_type = JStr (toApiType (q_type r)), e_answer = q_answer r,
      e_hint1 = (if hasHint1 then Some (q_hint1 r) else None),
      e_options = q_options r, e_correctIndex = q_correct_index r,
      e_createdAt = q_created_at r, e_usedAt = Some (q_used_at r)\<rparr>"

text \<open>
  \<open>ALTER TABLE questions ADD COLUMN IF NOT EXISTS hint1 TEXT\<close> inside its own
  \<open>try\<close>: call 0 of the handler, whose exception is swallowed.
\<close>

definition ensure_hint1 :: "faults \<Rightarrow> db \<Rightarrow> db" where
  "ensure_hint1 f d = (if f 0 then d else d\<lparr>db_has_hint1 := True\<rparr>)"

text \<open>
  The insert binds \<open>correctIndex\<close> to the integer column \<open>correct_index\<close>: the store
  refuses an index that is not a whole number.
\<close>

definition index_refused :: "jsnum option \<Rightarrow> bool" where
  "index_refused correctIndex = (case correctIndex of None \<Rightarrow> False | Some n \<Rightarrow> \<not> int4 n)"

text \<open>
  The handler. \<open>req\<close> is the parsed body, \<open>None\<close> when \<open>req.json()\<close> throws. Call 0 adds
  the column \<open>hint1\<close> if it is missing; call 1 probes the column; call 2 is the insert.
\<close>

definition POST :: "faults \<Rightarrow> db \<Rightarrow> jsval option \<Rightarrow> response \<times> db" where
  "POST f d req =
     (case req of
        None \<Rightarrow> (ErrorJson 500 Erro_ao_criar, d)
      | Some body \<Rightarrow>
          if throws_on_read body then (ErrorJson 500 Erro_ao_criar, d)
          else if \<not> isNonEmptyString (field body ''text'')
          then (ErrorJson 400 Texto_obrigatorio, d)
          else
            let dbType = toDbType (field body ''type'');
                difficulty = (if isNonEmptyString (field body ''difficulty'')
                              then field body ''difficulty'' else JStr ''facil'');
                d1 = ensure_hint1 f d
            in (case type_rules dbType body of
                  Inl m \<Rightarrow> (ErrorJson 400 m, d1)
                | Inr (answer, options, correctIndex) \<Rightarrow>
                    if f 1 then (ErrorJson 500 Erro_ao_criar, d1)
                    else
                      let hasHint1 = db_has_hint1 d1;
                          r = new_row d1 hasHint1 body difficulty dbType answer options correctIndex
                      in if f 2 then (ErrorJson 500 Erro_ao_criar, d1)
                         else if index_refused correctIndex
                         then (ErrorJson 500 Erro_ao_criar, d1)
                         else (EntityJson 201 (created_entity hasHint1 r),
                               d1\<lparr>db_rows := db_rows d1 @ [r],
                                  db_next_id := db_next_id d1 + 1\<rparr>)))"

section \<open>\<open>DELETE\<close> and \<open>PUT /api/questions/{id}\<close>\<close>

text \<open>
  \<open>numericId\<close> is the number the path segment \<open>id\<close> converts to. The guard
  \<open>!numericId || isNaN(numericId)\<close> is \<open>invalid_id\<close>.
\<close>

definition invalid_id :: "jsnum \<Rightarrow> bool" where
  "invalid_id numericId = (\<not> num_truthy numericId \<or> isNaN numericId)"

text \<open>
  The handler: call 0 is the delete, with \<open>numericId\<close> bound to the integer column
  \<open>id\<close>; the store refuses a number that is not a 32-bit integer.
\<close>

definition DELETE :: "faults \<Rightarrow> db \<Rightarrow> jsnum \<Rightarrow> response \<times> db" where
  "DELETE f d numericId =
     (if invalid_id numericId then (ErrorJson 400 ID_invalido, d)
      else if f 0 then (ErrorJson 500 Erro_ao_deletar, d)
      else if int4 numericId then
        let rowCount = length (filter (id_is numericId) (db_rows d));
            d' = d\<lparr>db_rows := filter (\<lambda>r. \<not> id_is numericId r) (db_rows d)\<rparr>
        in if rowCount = 0 then (ErrorJson 404 Pergunta_nao_encontrada, d')
           else (MessageJson 200 Pergunta_removida, d')
      else (ErrorJson 500 Erro_ao_deletar, d))"

text \<open>
  The \<open>SET\<close> list of the update applied to one row: every column of the list takes the
  parameter bound to it, read at the column's type, \<open>hint1\<close> only when the column was
  found, and \<open>created_at\<close> takes itself. \<open>index\<close> is \<open>correctIndex ?? null\<close> as the
  integer column reads it.
\<close>

definition set_cols :: "coercion \<Rightarrow> bool \<Rightarrow> jsval \<Rightarrow> jsval \<Rightarrow> question \<Rightarrow> question" where
  "set_cols co hasHint1 body index r =
     r\<lparr>q_text := text_param co (field body ''text''),
       q_difficulty := text_param co (field body ''difficulty''),
       q_type := text_param co (field body ''type''),
       q_answer := text_param co (field body ''answer''),
       q_hint1 := (if hasHint1 then text_param co (or_null (field body ''hint1''))
                   else q_hint1 r),
       q_options := (if truthy (field body ''options'')
                     then Some (json_of co (field body ''options'')) else None),
       q_correct_index := index,
       q_created_at := q_created_at r\<rparr>"

definition updated_entity :: "bool \<Rightarrow> question \<Rightarrow> entity" where
  "updated_entity hasHint1 r =
     \<lparr>e_id = q_id r, e_text = q_text r, e_difficulty = q_difficulty r,
      e_type = q_type r, e_answer = q_answer r,
      e_hint1 = (if hasHint1 then Some (q_hint1 r) else None),
      e_options = q_options r, e_correctIndex = q_correct_index r,
      e_createdAt = q_created_at r, e_usedAt = None\<rparr>"

text \<open>
  The handler: call 0 probes the column \<open>hint1\<close>, call 1 is the update, which the store
  refuses when \<open>numericId\<close> is not a 32-bit integer or \<open>correctIndex\<close> cannot be read as
  one; \<open>rows[0]\<close> is the first row the update returns.
\<close>

definition PUT :: "faults \<Rightarrow> coercion \<Rightarrow> db \<Rightarrow> jsnum \<Rightarrow> jsval option \<Rightarrow> response \<times> db" where
  "PUT f co d numericId req =
     (if invalid_id numericId then (ErrorJson 400 ID_invalido, d)
      else case req of
        None \<Rightarrow> (ErrorJson 500 Erro_ao_atualizar, d)
      | Some body \<Rightarrow>
          if throws_on_read body then (ErrorJson 500 Erro_ao_atualizar, d)
          else if f 0 then (ErrorJson 500 Erro_ao_atualizar, d)
          else
            let hasHint1 = db_has_hint1 d in
            if f 1 then (ErrorJson 500 Erro_ao_atualizar, d)
            else if int4 numericId then
              (case int_param co (or_null (field body ''correctIndex'')) of
                 None \<Rightarrow> (ErrorJson 500 Erro_ao_atualizar, d)
               | Some index \<Rightarrow>
                   let rows = map (set_cols co hasHint1 body index)
                                (filter (id_is numericId) (db_rows d));
                       d' = d\<lparr>db_rows := map (\<lambda>r. if id_is numericId r
                                                  then set_cols co hasHint1 body index r
                                                  else r) (db_rows d)\<rparr>
                   in (case rows of
                         [] \<Rightarrow> (ErrorJson 404 Pergunta_nao_encontrada, d')
                       | r # _ \<Rightarrow> (EntityJson 200 (updated_entity hasHint1 r), d')))
            else (ErrorJson 500 Erro_ao_atualizar, d))"






section \<open>Example requests and stores\<close>

text \<open>The values at which the theorems below are instantiated.\<close>

definition no_faults :: faults where
  "no_faults = (\<lambda>k. False)"

definition empty_db :: db where
  "empty_db = \<lparr>db_rows = [], db_has_hint1 = False, db_next_id = 1, db_now = 0\<rparr>"

definition one_question_db :: db where
  "one_question_db =
     \<lparr>db_rows =
        [\<lparr>q_id = 1, q_text = JStr ''CSROHA'', q_difficulty = JStr ''facil'',
          q_type = JStr ''discursiva'', q_answer = JStr ''CHAROS'', q_hint1 = JNull,
          q_options = None, q_correct_index = JNull, q_created_at = 3, q_used_at = None\<rparr>],
      db_has_hint1 = True, db_next_id = 2, db_now = 9\<rparr>"

definition mcq_without_text :: jsval where
  "mcq_without_text = JObj [(''text'', JStr []), (''type'', JStr ''MCQ'')]"

definition mcq_three_options :: jsval where
  "mcq_three_options =
     JObj [(''text'', JStr ''Capital of France?''), (''type'', JStr ''MCQ''),
           (''options'', JArr [JStr ''Paris'', JStr ''Lyon'', JStr ''Nice''])]"

definition mcq_four_options :: jsval where
  "mcq_four_options =
     JObj [(''text'', JStr ''Capital of France?''), (''type'', JStr ''MCQ''),
           (''options'', JArr [JStr ''Paris'', JStr '' Lyon'', JStr ''Nice '', JStr ''Metz''])]"

definition mcq_third_correct :: jsval where
  "mcq_third_correct =
     JObj [(''text'', JStr ''Capital of France?''), (''type'', JStr ''MCQ''),
           (''options'', JArr [JStr ''Paris'', JStr '' Lyon'', JStr ''Nice '', JStr ''Metz'']),
           (''correctIndex'', JNum (Fin 2))]"

definition open_question :: jsval where
  "open_question =
     JObj [(''text'', JStr ''CSROHA''), (''type'', JStr ''OPEN''),
           (''answer'', JStr '' CHAROS ''), (''difficulty'', JStr ''facil'')]"

definition open_without_answer :: jsval where
  "open_without_answer = JObj [(''text'', JStr ''CSROHA''), (''type'', JStr ''OPEN'')]"

definition open_padded_difficulty :: jsval where
  "open_padded_difficulty =
     JObj [(''text'', JStr ''CSROHA''), (''type'', JStr ''OPEN''),
           (''answer'', JStr ''CHAROS''), (''difficulty'', JStr '' facil '')]"

definition harder_question :: jsval where
  "harder_question =
     JObj [(''text'', JStr ''CSROHA''), (''difficulty'', JStr ''dificil''),
           (''type'', JStr ''discursiva''), (''answer'', JStr ''CHAROS'')]"

lemmas example_defs = no_faults_def empty_db_def mcq_without_text_def mcq_three_options_def
  mcq_four_options_def mcq_third_correct_def open_question_def open_without_answer_def open_padded_difficulty_def

lemmas eval_defs = POST_def type_rules_def toDbType_def toApiType_def trimmed_def
  rawOptions_def trim_def is_space_def ensure_hint1_def ci_def new_row_def created_entity_def
  bind_param_def num_ge_def index_refused_def int4_def

section \<open>The vocabulary of the question type\<close>

text \<open>
  C1. Translating \<open>OPEN\<close> or \<open>MCQ\<close> to the stored vocabulary and back gives the same
  tag; \<open>toDbType\<close> sends every value other than \<open>MCQ\<close> and \<open>multipla_escolha\<close> to
  \<open>discursiva\<close>, and \<open>toApiType\<close> sends every value other than \<open>multipla_escolha\<close> and
  \<open>MCQ\<close> to \<open>OPEN\<close>. Both are total functions of any value.
\<close>

theorem type_round_trip_and_defaults:
  "(\<forall>t \<in> {''OPEN'', ''MCQ''}. toApiType (JStr (toDbType (JStr t))) = t) \<and>
   (\<forall>v. v \<noteq> JStr ''MCQ'' \<and> v \<noteq> JStr ''multipla_escolha'' \<longrightarrow> toDbType v = ''discursiva'') \<and>
   (\<forall>v. v \<noteq> JStr ''multipla_escolha'' \<and> v \<noteq> JStr ''MCQ'' \<longrightarrow> toApiType v = ''OPEN'')"
  by (simp add: toDbType_def toApiType_def)

theorem type_round_trip_and_defaults_witness:
  "''MCQ'' \<in> {''OPEN'', ''MCQ''} \<and>
   toApiType (JStr (toDbType (JStr ''MCQ''))) = ''MCQ'' \<and>
   JStr ''facil'' \<noteq> JStr ''MCQ'' \<and> JStr ''facil'' \<noteq> JStr ''multipla_escolha'' \<and>
   toDbType (JStr ''facil'') = ''discursiva'' \<and>
   JNum (Fin 3) \<noteq> JStr ''multipla_escolha'' \<and> JNum (Fin 3) \<noteq> JStr ''MCQ'' \<and>
   toApiType (JNum (Fin 3)) = ''OPEN''"
proof -
  note t = type_round_trip_and_defaults
  have a: "''MCQ'' \<in> {''OPEN'', ''MCQ''}" by simp
  have b: "JStr ''facil'' \<noteq> JStr ''MCQ'' \<and> JStr ''facil'' \<noteq> JStr ''multipla_escolha''"
    by simp
  have c: "JNum (Fin 3) \<noteq> JStr ''multipla_escolha'' \<and> JNum (Fin 3) \<noteq> JStr ''MCQ''"
    by simp
  have r: "toApiType (JStr (toDbType (JStr ''MCQ''))) = ''MCQ''"
    by (rule t [THEN conjunct1, THEN bspec]) (rule a)
  have p: "toDbType (JStr ''facil'') = ''discursiva''"
    by (rule t [THEN conjunct2, THEN conjunct1, THEN spec, THEN mp]) (rule b)
  have q: "toApiType (JNum (Fin 3)) = ''OPEN''"
    by (rule t [THEN conjunct2, THEN conjunct2, THEN spec, THEN mp]) (rule c)
  from a b c r p q show ?thesis by (intro conjI) simp_all
qed

section \<open>Pagination of the listing\<close>

lemma page_of_default:
  "\<not> isFinite (pageRaw p) \<or> num_le (pageRaw p) (Fin 0) \<Longrightarrow> page_of p = Fin 1"
  by (cases "pageRaw p") (auto simp: page_of_def num_gt_def)

lemma limit_of_default:
  "\<not> isFinite (limitRaw l) \<or> num_le (limitRaw l) (Fin 0) \<or> num_gt (limitRaw l) (Fin 200)
   \<Longrightarrow> limit_of l = Fin 5"
  by (cases "limitRaw l") (auto simp: limit_of_def num_gt_def)

lemma limit_of_bounds:
  "isFinite (limit_of l) \<and> num_gt (limit_of l) (Fin 0) \<and> num_le (limit_of l) (Fin 200)"
  by (cases "limitRaw l") (auto simp: limit_of_def num_gt_def)

lemma page_of_bounds: "isFinite (page_of p) \<and> num_gt (page_of p) (Fin 0)"
  by (cases "pageRaw p") (auto simp: page_of_def num_gt_def)

lemma GET_cases:
  "GET f d p l df =
     (if f 0 \<or> f 1 \<or> f 2 then ErrorJson 500 Erro_ao_buscar
      else if window_accepted (limit_of l) (offset_of (page_of p) (limit_of l))
      then ListJson 200 \<lparr>l_page = page_of p, l_limit = limit_of l, l_total = count_rows d df\<rparr>
      else ErrorJson 500 Erro_ao_buscar)"
  by (simp add: GET_def Let_def)

lemma to_double_three_halves: "to_double (3 / 2) = Fin (3 / 2)"
proof -
  have a: "\<bar>3 / 2 :: rat\<bar> = 3 / 2" by simp
  have k: "ilog2 (3 / 2) = 0" by (simp add: ilog2_def bits.simps)
  have u: "max (ilog2 (3 / 2)) (- 1022) - 52 = - 52" by (simp add: k)
  have p: "pow2 (- 52) = 1 / 2 ^ 52" by (simp add: pow2_def)
  have r: "round_even (3 / 2 / pow2 (- 52)) = 3 * 2 ^ 51"
    unfolding round_even_def p by (simp add: Let_def)
  have v: "of_int (round_even (3 / 2 / pow2 (- 52))) * pow2 (- 52) = (3 / 2 :: rat)"
    by (subst r) (simp add: p)
  have big: "\<not> pow2 1024 \<le> (3 / 2 :: rat)" by (simp add: pow2_def)
  have "to_double (3 / 2) =
          (if pow2 1024 \<le> of_int (round_even (3 / 2 / pow2 (- 52))) * pow2 (- 52)
           then PosInf else Fin (of_int (round_even (3 / 2 / pow2 (- 52))) * pow2 (- 52)))"
    unfolding to_double_def Let_def a u by simp
  also have "\<dots> = Fin (3 / 2)" by (subst v, subst v) (simp only: big if_False)
  finally show ?thesis .
qed

lemma floor_three_halves: "\<lfloor>3 / 2 :: rat\<rfloor> = 1"
  by (simp add: floor_eq_iff)

lemma fractional_limit_kept: "limit_of (Some (Fin (3 / 2))) = Fin (3 / 2)"
  by (simp add: limit_of_def limitRaw_def to_double_three_halves num_gt_def)

lemma fractional_limit_refused: "\<not> window_accepted (Fin (3 / 2)) offset"
  by (simp add: window_accepted_def nat_int8_def floor_three_halves)

text \<open>
  C6. The listing asked with \<open>limit=1.5\<close> and no page: the limit passes the three tests
  of the handler as it is, is bound to \<open>LIMIT\<close>, the store refuses it and the handler
  answers 500.
\<close>

theorem list_fractional_limit_fails:
  "page_of None = Fin 1 \<and>
   limit_of (Some (Fin (3 / 2))) = Fin (3 / 2) \<and>
   GET no_faults one_question_db None (Some (Fin (3 / 2))) None =
     ErrorJson 500 Erro_ao_buscar"
proof -
  have "page_of None = Fin 1"
    by (simp add: page_of_def pageRaw_def num_gt_def)
  moreover have "GET no_faults one_question_db None (Some (Fin (3 / 2))) None =
     ErrorJson 500 Erro_ao_buscar"
    by (simp add: GET_cases fractional_limit_kept fractional_limit_refused)
  ultimately show ?thesis
    by (simp add: fractional_limit_kept)
qed

section \<open>Creating a question\<close>

lemma isNonEmptyString_JStr:
  "isNonEmptyString v \<Longrightarrow> \<exists>s. v = JStr s \<and> trim s \<noteq> []"
  by (cases v) simp_all

lemma field_throws: "throws_on_read body \<Longrightarrow> field body k = JUndef"
  by (cases body) simp_all

lemma filled_text_reads: "isNonEmptyString (field body k) \<Longrightarrow> \<not> throws_on_read body"
  by (cases body) simp_all

lemma mcq_type_reads:
  "toDbType (field body ''type'') = ''multipla_escolha'' \<Longrightarrow> \<not> throws_on_read body"
  by (cases body) (simp_all add: toDbType_def)

lemma ensure_hint1_rows [simp]:
  "db_rows (ensure_hint1 f d) = db_rows d"
  "db_next_id (ensure_hint1 f d) = db_next_id d"
  "db_now (ensure_hint1 f d) = db_now d"
  by (simp_all add: ensure_hint1_def)

lemma POST_text_required:
  "\<not> throws_on_read body \<Longrightarrow> \<not> isNonEmptyString (field body ''text'') \<Longrightarrow>
   POST f d (Some body) = (ErrorJson 400 Texto_obrigatorio, d)"
  by (simp add: POST_def)

lemma POST_rules_fail:
  "isNonEmptyString (field body ''text'') \<Longrightarrow>
   type_rules (toDbType (field body ''type'')) body = Inl m \<Longrightarrow>
   POST f d (Some body) = (ErrorJson 400 m, ensure_hint1 f d)"
  by (simp add: POST_def Let_def filled_text_reads)

lemma POST_created:
  "isNonEmptyString (field body ''text'') \<Longrightarrow>
   type_rules (toDbType (field body ''type'')) body = Inr (answer, options, correctIndex) \<Longrightarrow>
   \<not> f 1 \<Longrightarrow> \<not> f 2 \<Longrightarrow> \<not> index_refused correctIndex \<Longrightarrow>
   POST f d (Some body) =
     (EntityJson 201
        (created_entity (db_has_hint1 (ensure_hint1 f d))
           (new_row (ensure_hint1 f d) (db_has_hint1 (ensure_hint1 f d)) body
              (if isNonEmptyString (field body ''difficulty'')
               then field body ''difficulty'' else JStr ''facil'')
              (toDbType (field body ''type'')) answer options correctIndex)),
      (ensure_hint1 f d)
        \<lparr>db_rows := db_rows (ensure_hint1 f d) @
           [new_row (ensure_hint1 f d) (db_has_hint1 (ensure_hint1 f d)) body
              (if isNonEmptyString (field body ''difficulty'')
               then field body ''difficulty'' else JStr ''facil'')
              (toDbType (field body ''type'')) answer options correctIndex],
         db_next_id := db_next_id (ensure_hint1 f d) + 1\<rparr>)"
  by (simp add: POST_def Let_def filled_text_reads)

lemma trimmed_entry_filled:
  "((case x of JStr s \<Rightarrow> trim s | _ \<Rightarrow> []) \<noteq> []) = (\<exists>s. x = JStr s \<and> trim s \<noteq> [])"
  by (cases x) simp_all

lemma length_four: "(length xs = 4) = (\<exists>a b c e. xs = [a, b, c, e])"
  by (auto simp: numeral_eq_Suc length_Suc_conv)

lemma four_filled_options:
  "(length (trimmed body) = 4 \<and> [] \<notin> set (trimmed body)) =
   (\<exists>a b c e. field body ''options'' = JArr [JStr a, JStr b, JStr c, JStr e] \<and>
       trim a \<noteq> [] \<and> trim b \<noteq> [] \<and> trim c \<noteq> [] \<and> trim e \<noteq> [])"
proof (cases "field body ''options''")
  case (JArr xs)
  then have t: "trimmed body = map (\<lambda>x. case x of JStr s \<Rightarrow> trim s | _ \<Rightarrow> []) xs"
    by (simp add: trimmed_def rawOptions_def)
  show ?thesis
  proof
    assume h: "length (trimmed body) = 4 \<and> [] \<notin> set (trimmed body)"
    then obtain w x y z where xs: "xs = [w, x, y, z]"
      using t by (auto simp: length_four)
    from h t xs have
      "(case w of JStr s \<Rightarrow> trim s | _ \<Rightarrow> []) \<noteq> []"
      "(case x of JStr s \<Rightarrow> trim s | _ \<Rightarrow> []) \<noteq> []"
      "(case y of JStr s \<Rightarrow> trim s | _ \<Rightarrow> []) \<noteq> []"
      "(case z of JStr s \<Rightarrow> trim s | _ \<Rightarrow> []) \<noteq> []"
      by auto
    then obtain a b c e where
      "w = JStr a" "trim a \<noteq> []" "x = JStr b" "trim b \<noteq> []"
      "y = JStr c" "trim c \<noteq> []" "z = JStr e" "trim e \<noteq> []"
      unfolding trimmed_entry_filled by blast
    with JArr xs show "\<exists>a b c e. field body ''options'' = JArr [JStr a, JStr b, JStr c, JStr e] \<and>
       trim a \<noteq> [] \<and> trim b \<noteq> [] \<and> trim c \<noteq> [] \<and> trim e \<noteq> []"
      by simp
  next
    assume "\<exists>a b c e. field body ''options'' = JArr [JStr a, JStr b, JStr c, JStr e] \<and>
       trim a \<noteq> [] \<and> trim b \<noteq> [] \<and> trim c \<noteq> [] \<and> trim e \<noteq> []"
    then show "length (trimmed body) = 4 \<and> [] \<notin> set (trimmed body)"
      by (auto simp: trimmed_def rawOptions_def)
  qed
qed (simp_all add: trimmed_def rawOptions_def)

text \<open>
  C2 (as amended). A create request whose type resolves to multiple choice and whose
  options are not exactly four strings, each non-empty after trimming, is answered 400
  and no row is written: with the message of the four options when its text is
  non-empty after trimming, and with the message of the missing text otherwise, the
  text being checked first.
\<close>

theorem mcq_options_rejected:
  assumes "toDbType (field body ''type'') = ''multipla_escolha''"
    and "\<not> (\<exists>a b c e. field body ''options'' = JArr [JStr a, JStr b, JStr c, JStr e] \<and>
            trim a \<noteq> [] \<and> trim b \<noteq> [] \<and> trim c \<noteq> [] \<and> trim e \<noteq> [])"
  shows "POST f d (Some body) =
           (if isNonEmptyString (field body ''text'')
            then (ErrorJson 400 MCQ_precisa_4_alternativas, ensure_hint1 f d)
            else (ErrorJson 400 Texto_obrigatorio, d)) \<and>
         db_rows (snd (POST f d (Some body))) = db_rows d"
proof (cases "isNonEmptyString (field body ''text'')")
  case True
  from assms(2) have "length (trimmed body) \<noteq> 4 \<or> [] \<in> set (trimmed body)"
    using four_filled_options [of body] by blast
  with assms(1) have "type_rules (toDbType (field body ''type'')) body = Inl MCQ_precisa_4_alternativas"
    by (auto simp: type_rules_def)
  with True show ?thesis by (simp add: POST_rules_fail)
next
  case False
  with assms(1) show ?thesis by (simp add: POST_text_required mcq_type_reads)
qed

theorem mcq_options_rejected_witness:
  "toDbType (field mcq_three_options ''type'') = ''multipla_escolha'' \<and>
   POST no_faults empty_db (Some mcq_three_options) =
     (ErrorJson 400 MCQ_precisa_4_alternativas, empty_db\<lparr>db_has_hint1 := True\<rparr>) \<and>
   db_rows (snd (POST no_faults empty_db (Some mcq_three_options))) = []"
proof -
  have t: "toDbType (field mcq_three_options ''type'') = ''multipla_escolha''"
    by (simp add: mcq_three_options_def toDbType_def)
  have o: "\<not> (\<exists>a b c e. field mcq_three_options ''options'' = JArr [JStr a, JStr b, JStr c, JStr e] \<and>
            trim a \<noteq> [] \<and> trim b \<noteq> [] \<and> trim c \<noteq> [] \<and> trim e \<noteq> [])"
    by (simp add: mcq_three_options_def)
  have x: "isNonEmptyString (field mcq_three_options ''text'')"
    by (simp add: mcq_three_options_def trim_def is_space_def)
  from mcq_options_rejected [OF t o, of no_faults empty_db] x t show ?thesis
    by (simp add: ensure_hint1_def no_faults_def empty_db_def)
qed

theorem mcq_options_message_counterexample:
  "toDbType (field mcq_without_text ''type'') = ''multipla_escolha'' \<and>
   trimmed mcq_without_text = [] \<and>
   POST no_faults empty_db (Some mcq_without_text) = (ErrorJson 400 Texto_obrigatorio, empty_db)"
  by (simp add: example_defs eval_defs)





lemma type_rules_mcq:
  assumes "field body ''options'' = JArr [JStr a, JStr b, JStr c, JStr e]"
    and "trim a \<noteq> []" "trim b \<noteq> []" "trim c \<noteq> []" "trim e \<noteq> []"
  shows "type_rules ''multipla_escolha'' body =
           Inr (if isNonEmptyString (field body ''answer'')
                then js_trim (field body ''answer'')
                else element_at [trim a, trim b, trim c, trim e] (ci body),
                Some [trim a, trim b, trim c, trim e], Some (ci body))"
proof -
  from assms(1) have "trimmed body = [trim a, trim b, trim c, trim e]"
    by (simp add: trimmed_def rawOptions_def)
  with assms(2-) show ?thesis by (simp add: type_rules_def)
qed



text \<open>An index from 0 to 3 that is not a whole number passes the handler's test and is
  refused by the store: the handler answers 500 and no row is written.\<close>

lemma mcq_fractional_index_refused:
  assumes "toDbType (field body ''type'') = ''multipla_escolha''"
    and "isNonEmptyString (field body ''text'')"
    and "field body ''options'' = JArr [JStr a, JStr b, JStr c, JStr e]"
    and "trim a \<noteq> []" "trim b \<noteq> []" "trim c \<noteq> []" "trim e \<noteq> []"
    and "field body ''correctIndex'' = JNum (Fin q)" "0 \<le> q" "q \<le> 3" "of_int \<lfloor>q\<rfloor> \<noteq> q"
  shows "POST f d (Some body) = (ErrorJson 500 Erro_ao_criar, ensure_hint1 f d)"
proof -
  from assms(8-10) have ck: "ci body = Fin q"
    by (simp add: ci_def num_ge_def)
  from assms(11) have "index_refused (Some (ci body))"
    by (simp add: ck index_refused_def int4_def)
  moreover from assms(1) type_rules_mcq [OF assms(3-7)]
  have "type_rules (toDbType (field body ''type'')) body =
          Inr (if isNonEmptyString (field body ''answer'')
               then js_trim (field body ''answer'')
               else element_at [trim a, trim b, trim c, trim e] (ci body),
               Some [trim a, trim b, trim c, trim e], Some (ci body))"
    by simp
  ultimately show ?thesis using assms(2)
    by (simp add: POST_def Let_def filled_text_reads)
qed

lemma type_rules_open:
  "t \<noteq> ''multipla_escolha'' \<Longrightarrow>
   type_rules t body =
     (if \<not> isNonEmptyString (field body ''answer'') then Inl Resposta_obrigatoria
      else Inr (js_trim (field body ''answer''), None, None))"
  by (simp add: type_rules_def)

text \<open>
  C4. An open request that passes the checks, its insert succeeding, writes a row
  whose options and index are NULL and whose answer is the trimmed answer of the
  request, and the row returned says so with the type \<open>OPEN\<close>. An open request whose
  answer is absent, not a string, or empty after trimming is answered 400 and no row is
  written.
\<close>

theorem open_question_creation:
  "(toDbType (field body ''type'') = ''discursiva'' \<and> isNonEmptyString (field body ''text'') \<and>
    field body ''answer'' = JStr s \<and> trim s \<noteq> [] \<and> \<not> f 1 \<and> \<not> f 2 \<longrightarrow>
      (\<exists>en r.
         POST f d (Some body) =
           (EntityJson 201 en,
            (ensure_hint1 f d)\<lparr>db_rows := db_rows d @ [r], db_next_id := db_next_id d + 1\<rparr>) \<and>
         q_options r = None \<and> q_correct_index r = JNull \<and> q_answer r = JStr (trim s) \<and>
         e_options en = None \<and> e_correctIndex en = JNull \<and> e_answer en = JStr (trim s) \<and>
         e_type en = JStr ''OPEN'')) \<and>
   (\<not> throws_on_read body \<and> toDbType (field body ''type'') = ''discursiva'' \<and>
    \<not> isNonEmptyString (field body ''answer'') \<longrightarrow>
      (\<exists>m d'. POST f d (Some body) = (ErrorJson 400 m, d') \<and> db_rows d' = db_rows d))"
proof (intro conjI impI)
  assume h: "toDbType (field body ''type'') = ''discursiva'' \<and>
    isNonEmptyString (field body ''text'') \<and>
    field body ''answer'' = JStr s \<and> trim s \<noteq> [] \<and> \<not> f 1 \<and> \<not> f 2"
  let ?d1 = "ensure_hint1 f d"
  let ?r = "new_row ?d1 (db_has_hint1 ?d1) body
              (if isNonEmptyString (field body ''difficulty'')
               then field body ''difficulty'' else JStr ''facil'')
              (toDbType (field body ''type'')) (JStr (trim s)) None None"
  from h have tr: "type_rules (toDbType (field body ''type'')) body = Inr (JStr (trim s), None, None)"
    by (simp add: type_rules_open)
  from h have x: "isNonEmptyString (field body ''text'')" and f: "\<not> f 1" "\<not> f 2"
    by simp_all
  have post: "POST f d (Some body) =
      (EntityJson 201 (created_entity (db_has_hint1 ?d1) ?r),
       ?d1\<lparr>db_rows := db_rows d @ [?r], db_next_id := db_next_id d + 1\<rparr>)"
    using POST_created [OF x tr f, of d] by (simp add: index_refused_def)
  have r: "q_options ?r = None \<and> q_correct_index ?r = JNull \<and> q_answer ?r = JStr (trim s)"
    by (simp add: new_row_def bind_param_def)
  from h have e: "e_options (created_entity (db_has_hint1 ?d1) ?r) = None \<and>
      e_correctIndex (created_entity (db_has_hint1 ?d1) ?r) = JNull \<and>
      e_answer (created_entity (db_has_hint1 ?d1) ?r) = JStr (trim s) \<and>
      e_type (created_entity (db_has_hint1 ?d1) ?r) = JStr ''OPEN''"
    by (simp add: created_entity_def new_row_def bind_param_def toApiType_def)
  from post r e show "\<exists>en r.
         POST f d (Some body) =
           (EntityJson 201 en,
            (ensure_hint1 f d)\<lparr>db_rows := db_rows d @ [r], db_next_id := db_next_id d + 1\<rparr>) \<and>
         q_options r = None \<and> q_correct_index r = JNull \<and> q_answer r = JStr (trim s) \<and>
         e_options en = None \<and> e_correctIndex en = JNull \<and> e_answer en = JStr (trim s) \<and>
         e_type en = JStr ''OPEN''"
    by blast
next
  assume h: "\<not> throws_on_read body \<and> toDbType (field body ''type'') = ''discursiva'' \<and>
    \<not> isNonEmptyString (field body ''answer'')"
  show "\<exists>m d'. POST f d (Some body) = (ErrorJson 400 m, d') \<and> db_rows d' = db_rows d"
  proof (cases "isNonEmptyString (field body ''text'')")
    case True
    from h have "type_rules (toDbType (field body ''type'')) body = Inl Resposta_obrigatoria"
      by (simp add: type_rules_open)
    from POST_rules_fail [OF True this, of f d] show ?thesis by simp
  next
    case False
    with h show ?thesis by (simp add: POST_text_required)
  qed
qed

theorem open_question_creation_witness:
  "(toDbType (field open_question ''type'') = ''discursiva'' \<and>
    isNonEmptyString (field open_question ''text'') \<and>
    field open_question ''answer'' = JStr '' CHAROS '' \<and> trim '' CHAROS '' \<noteq> [] \<and>
    \<not> no_faults 1 \<and> \<not> no_faults 2) \<and>
   (\<exists>en r.
      POST no_faults empty_db (Some open_question) =
        (EntityJson 201 en,
         (ensure_hint1 no_faults empty_db)\<lparr>db_rows := db_rows empty_db @ [r],
            db_next_id := db_next_id empty_db + 1\<rparr>) \<and>
      q_options r = None \<and> q_correct_index r = JNull \<and> q_answer r = JStr ''CHAROS'' \<and>
      e_type en = JStr ''OPEN'') \<and>
   (\<not> throws_on_read open_without_answer \<and>
    toDbType (field open_without_answer ''type'') = ''discursiva'' \<and>
    \<not> isNonEmptyString (field open_without_answer ''answer'')) \<and>
   (\<exists>m d'. POST no_faults empty_db (Some open_without_answer) = (ErrorJson 400 m, d') \<and>
      db_rows d' = db_rows empty_db)"
proof -
  have a: "toDbType (field open_question ''type'') = ''discursiva'' \<and>
    isNonEmptyString (field open_question ''text'') \<and>
    field open_question ''answer'' = JStr '' CHAROS '' \<and> trim '' CHAROS '' \<noteq> [] \<and>
    \<not> no_faults 1 \<and> \<not> no_faults 2"
    by (simp add: open_question_def toDbType_def trim_def is_space_def no_faults_def)
  have b: "\<not> throws_on_read open_without_answer \<and>
    toDbType (field open_without_answer ''type'') = ''discursiva'' \<and>
    \<not> isNonEmptyString (field open_without_answer ''answer'')"
    by (simp add: open_without_answer_def toDbType_def)
  have c: "trim '' CHAROS '' = ''CHAROS''"
    by (simp add: trim_def is_space_def)
  from open_question_creation [of open_question "'' CHAROS ''" no_faults empty_db] a
  have "\<exists>en r.
      POST no_faults empty_db (Some open_question) =
        (EntityJson 201 en,
         (ensure_hint1 no_faults empty_db)\<lparr>db_rows := db_rows empty_db @ [r],
            db_next_id := db_next_id empty_db + 1\<rparr>) \<and>
      q_options r = None \<and> q_correct_index r = JNull \<and> q_answer r = JStr (trim '' CHAROS '') \<and>
      e_type en = JStr ''OPEN''"
    by blast
  moreover
  from open_question_creation [of open_without_answer _ no_faults empty_db] b
  have "\<exists>m d'. POST no_faults empty_db (Some open_without_answer) = (ErrorJson 400 m, d') \<and>
      db_rows d' = db_rows empty_db"
    by blast
  ultimately show ?thesis using a b unfolding c by blast
qed

lemma has_hint1_idem: "db_has_hint1 d \<Longrightarrow> d\<lparr>db_has_hint1 := True\<rparr> = d"
  by (cases d) simp

lemma type_rules_messages:
  "type_rules t body = Inl m \<Longrightarrow> m = MCQ_precisa_4_alternativas \<or> m = Resposta_obrigatoria"
  by (auto simp: type_rules_def split: if_splits)

lemma POST_400:
  assumes "POST f d req = (ErrorJson 400 m, d')"
  shows "(m = Texto_obrigatorio \<and> d' = d) \<or>
         ((m = MCQ_precisa_4_alternativas \<or> m = Resposta_obrigatoria) \<and> d' = ensure_hint1 f d)"
proof (cases req)
  case None
  with assms show ?thesis by (simp add: POST_def)
next
  case (Some body)
  show ?thesis
  proof (cases "throws_on_read body \<or> \<not> isNonEmptyString (field body ''text'')")
    case True
    with assms Some show ?thesis by (auto simp: POST_def split: if_splits)
  next
    case False
    then have x: "isNonEmptyString (field body ''text'')" by simp
    show ?thesis
    proof (cases "type_rules (toDbType (field body ''type'')) body")
      case (Inl e)
      from POST_rules_fail [OF x Inl, of f d] assms Some type_rules_messages [OF Inl]
      show ?thesis by simp
    next
      case (Inr t)
      obtain a os c where t: "t = (a, os, c)" by (cases t)
      from assms Some False Inr t show ?thesis
        by (simp add: POST_def Let_def split: if_splits)
    qed
  qed
qed

text \<open>
  C5 (as amended). When the create handler answers 400, no row has been written and
  the counter of ids and the clock are as before. The check of the text precedes every
  statement, so the store is untouched when it fails. The checks by type run after the
  statement that adds the column \<open>hint1\<close> if it is missing: when one of them fails the
  store is as before, or differs only in now having that column.
\<close>

theorem validation_failure_writes_no_row:
  assumes "POST f d req = (ErrorJson 400 m, d')"
  shows "db_rows d' = db_rows d \<and> db_next_id d' = db_next_id d \<and> db_now d' = db_now d \<and>
         (d' = d \<or> d' = d\<lparr>db_has_hint1 := True\<rparr>) \<and>
         (m = Texto_obrigatorio \<longrightarrow> d' = d) \<and>
         (db_has_hint1 d \<longrightarrow> d' = d)"
  using POST_400 [OF assms] by (auto simp: ensure_hint1_def has_hint1_idem)

theorem validation_failure_writes_no_row_witness:
  "POST no_faults empty_db (Some open_without_answer) =
     (ErrorJson 400 Resposta_obrigatoria, empty_db\<lparr>db_has_hint1 := True\<rparr>) \<and>
   db_rows (empty_db\<lparr>db_has_hint1 := True\<rparr>) = db_rows empty_db \<and>
   db_next_id (empty_db\<lparr>db_has_hint1 := True\<rparr>) = db_next_id empty_db"
proof -
  have p: "POST no_faults empty_db (Some open_without_answer) =
     (ErrorJson 400 Resposta_obrigatoria, empty_db\<lparr>db_has_hint1 := True\<rparr>)"
    by (simp add: example_defs eval_defs)
  from validation_failure_writes_no_row [OF p] p show ?thesis by simp
qed

theorem validation_failure_counterexample:
  "POST no_faults empty_db (Some mcq_three_options) =
     (ErrorJson 400 MCQ_precisa_4_alternativas, empty_db\<lparr>db_has_hint1 := True\<rparr>) \<and>
   empty_db\<lparr>db_has_hint1 := True\<rparr> \<noteq> empty_db"
  by (simp add: example_defs eval_defs)

text \<open>
  C8. The create handler on the open question of difficulty \<open>" facil "\<close>: the text is
  stored trimmed, and the difficulty is stored as sent, with its spaces.
\<close>

theorem create_stores_difficulty_untrimmed:
  "map q_difficulty (db_rows (snd (POST no_faults empty_db (Some open_padded_difficulty)))) =
     [JStr '' facil ''] \<and>
   map q_text (db_rows (snd (POST no_faults empty_db (Some open_padded_difficulty)))) =
     [JStr ''CSROHA''] \<and>
   trim '' facil '' = ''facil''"
  by (simp add: example_defs eval_defs)

section \<open>Deleting and updating a question\<close>

lemma invalid_id_iff: "invalid_id n = (n = Fin 0 \<or> n = NaN)"
  by (cases n) (simp_all add: invalid_id_def)

lemma DELETE_invalid: "invalid_id n \<Longrightarrow> DELETE f d n = (ErrorJson 400 ID_invalido, d)"
  by (simp add: DELETE_def)

lemma PUT_invalid: "invalid_id n \<Longrightarrow> PUT f co d n req = (ErrorJson 400 ID_invalido, d)"
  by (simp add: PUT_def)









text \<open>
  C10. The guard of \<open>DELETE\<close> and \<open>PUT\<close> takes 0 and not-a-number alike for invalid: both
  handlers answer 400 with the message of the invalid id and leave the store as it was.
  Hence a row whose id is 0 is still in the table, unchanged, after any \<open>DELETE\<close> or
  \<open>PUT\<close>.
\<close>

theorem zero_id_rejected:
  "invalid_id (Fin 0) \<and> invalid_id NaN \<and>
   (invalid_id n \<longrightarrow>
      DELETE f d n = (ErrorJson 400 ID_invalido, d) \<and>
      PUT f co d n req = (ErrorJson 400 ID_invalido, d)) \<and>
   (r \<in> set (db_rows d) \<and> q_id r = 0 \<longrightarrow>
      r \<in> set (db_rows (snd (DELETE f d n))) \<and>
      r \<in> set (db_rows (snd (PUT f co d n req))))"
proof (intro conjI impI)
  show "invalid_id (Fin 0)" "invalid_id NaN"
    by (simp_all add: invalid_id_def)
next
  assume "invalid_id n"
  then show "DELETE f d n = (ErrorJson 400 ID_invalido, d)"
    and "PUT f co d n req = (ErrorJson 400 ID_invalido, d)"
    by (simp_all add: DELETE_invalid PUT_invalid)
next
  assume h: "r \<in> set (db_rows d) \<and> q_id r = 0"
  have z: "\<not> invalid_id n \<Longrightarrow> \<not> id_is n r"
    using h by (auto simp: id_is_def invalid_id_iff)
  show "r \<in> set (db_rows (snd (DELETE f d n)))"
    using h z by (simp add: DELETE_def Let_def)
  have "r \<in> (\<lambda>x. if id_is n x then set_cols co (db_has_hint1 d) body index x else x) `
              set (db_rows d)"
    if "\<not> invalid_id n" for body index
    using h z [OF that] by (intro image_eqI [where x = r]) simp_all
  then show "r \<in> set (db_rows (snd (PUT f co d n req)))"
    using h by (simp add: PUT_def Let_def split: option.split list.split)
qed

theorem zero_id_rejected_witness:
  "invalid_id (Fin 0) \<and>
   DELETE no_faults one_question_db (Fin 0) = (ErrorJson 400 ID_invalido, one_question_db) \<and>
   (\<forall>co. PUT no_faults co one_question_db (Fin 0) (Some harder_question) =
           (ErrorJson 400 ID_invalido, one_question_db)) \<and>
   DELETE no_faults one_question_db NaN = (ErrorJson 400 ID_invalido, one_question_db) \<and>
   (\<forall>co. PUT no_faults co one_question_db NaN (Some harder_question) =
           (ErrorJson 400 ID_invalido, one_question_db))"
proof (intro conjI allI)
  fix co
  note z = zero_id_rejected [of "Fin 0" no_faults one_question_db co "Some harder_question"]
  note n = zero_id_rejected [of NaN no_faults one_question_db co "Some harder_question"]
  from z show i: "invalid_id (Fin 0)" by (rule conjunct1)
  from n have j: "invalid_id NaN" by (rule conjunct2 [THEN conjunct1])
  from z i show "DELETE no_faults one_question_db (Fin 0) =
      (ErrorJson 400 ID_invalido, one_question_db)" by simp
  from z i show "PUT no_faults co one_question_db (Fin 0) (Some harder_question) =
      (ErrorJson 400 ID_invalido, one_question_db)" by simp
  from n j show "DELETE no_faults one_question_db NaN =
      (ErrorJson 400 ID_invalido, one_question_db)" by simp
  from n j show "PUT no_faults co one_question_db NaN (Some harder_question) =
      (ErrorJson 400 ID_invalido, one_question_db)" by simp
qed

lemma set_cols_frame [simp]:
  "q_id (set_cols co h body index r) = q_id r"
  "q_created_at (set_cols co h body index r) = q_created_at r"
  "q_used_at (set_cols co h body index r) = q_used_at r"
  by (simp_all add: set_cols_def)

lemma set_cols_values [simp]:
  "q_text (set_cols co h body index r) = text_param co (field body ''text'')"
  "q_difficulty (set_cols co h body index r) = text_param co (field body ''difficulty'')"
  "q_type (set_cols co h body index r) = text_param co (field body ''type'')"
  "q_answer (set_cols co h body index r) = text_param co (field body ''answer'')"
  "q_hint1 (set_cols co h body index r) =
     (if h then text_param co (or_null (field body ''hint1'')) else q_hint1 r)"
  "q_options (set_cols co h body index r) =
     (if truthy (field body ''options'') then Some (json_of co (field body ''options''))
      else None)"
  "q_correct_index (set_cols co h body index r) = index"
  by (simp_all add: set_cols_def)








text \<open>An update whose \<open>correctIndex\<close> the store cannot read as a 32-bit integer, or whose
  id is not one, is answered 500 and changes nothing.\<close>

lemma PUT_refused:
  "\<not> invalid_id n \<Longrightarrow>
   \<not> int4 n \<or> int_param co (or_null (field body ''correctIndex'')) = None \<Longrightarrow>
   PUT f co d n (Some body) = (ErrorJson 500 Erro_ao_atualizar, d)"
  by (auto simp: PUT_def Let_def)



end
